theory Spec2Isabelle
  imports Main
begin

section \<open>Data model of \<open>weather_fetcher.py\<close>\<close>

text \<open>
  A timezone-aware UTC \<open>datetime\<close> is represented by its offset from the Unix epoch in
  microseconds, the resolution of Python's \<open>datetime\<close>. UTC has neither daylight saving
  nor (in Python) leap seconds, so \<open>timedelta\<close> arithmetic is integer arithmetic on the
  offset and \<open>replace(minute=0, second=0, microsecond=0)\<close> rounds the offset down to a
  multiple of one hour. Instants are unbounded integers: the bounded year range of
  \<open>datetime\<close> (1 to 9999) is modelled where the program makes a \<open>datetime\<close> from the
  \<open>dt\<close> of a response, and not in the arithmetic on the time of the clock.

  Temperature and humidity are JSON numbers that the program only carries around; they
  are values of an arbitrary type \<open>'v\<close>.
\<close>

type_synonym datetime = int

definition second_us :: int where
  "second_us = 1000000"

definition hour_us :: int where
  "hour_us = 3600 * second_us"

text \<open>
  \<open>datetime.fromtimestamp(s, tz=timezone.utc)\<close> for an integer number of seconds. The
  call raises \<open>ValueError\<close> unless the instant lies in the years 1 to 9999, that is,
  unless \<open>s\<close> is between 0001-01-01T00:00:00Z and 9999-12-31T23:59:59Z;
  \<open>timestamp_in_range\<close> is that condition, checked where the program calls
  \<open>fromtimestamp\<close> on a number taken from a response. (The program itself passes
  only \<open>datetime\<close> values to \<open>data_exists\<close>.)
\<close>

definition fromtimestamp :: "int \<Rightarrow> datetime" where
  "fromtimestamp s = s * second_us"

definition timestamp_in_range :: "int \<Rightarrow> bool" where
  "timestamp_in_range s = (- 62135596800 \<le> s \<and> s \<le> 253402300799)"

text \<open>
  \<open>int(d.timestamp())\<close>: the seconds since the epoch, and \<open>int\<close> truncates towards zero.
\<close>

definition int_timestamp :: "datetime \<Rightarrow> int" where
  "int_timestamp d = (if 0 \<le> d then d div second_us else - ((- d) div second_us))"

text \<open>\<open>d.replace(minute=0, second=0, microsecond=0)\<close>.\<close>

definition floor_to_hour :: "datetime \<Rightarrow> datetime" where
  "floor_to_hour d = d - d mod hour_us"

text \<open>The keys of the \<open>CITIES\<close> table, with the two fields of each entry.\<close>

datatype city = Cape_Town | Kigali | Kampala

fun city_query :: "city \<Rightarrow> string" where
  "city_query Cape_Town = ''Cape Town,ZA''"
| "city_query Kigali = ''Kigali,RW''"
| "city_query Kampala = ''Kampala,UG''"

fun city_filename :: "city \<Rightarrow> string" where
  "city_filename Cape_Town = ''cape_town_weather.csv''"
| "city_filename Kigali = ''kigali_weather.csv''"
| "city_filename Kampala = ''kampala_weather.csv''"

definition DATA_DIR :: string where
  "DATA_DIR = ''weather_data''"

definition get_csv_path :: "city \<Rightarrow> string" where
  "get_csv_path city_name = DATA_DIR @ ''/'' @ city_filename city_name"

text \<open>
  A record as \<open>extract_hourly_data\<close> builds it and as a row of the loaded data frame
  holds it.
\<close>

record 'v weather_record =
  timestamp :: datetime
  temperature :: 'v
  humidity :: 'v

text \<open>
  The JSON of the weather endpoint: an element of the \<open>data\<close> array, each of whose
  keys \<open>dt\<close>, \<open>temp\<close> and \<open>humidity\<close> may be absent (\<open>None\<close>), and the response,
  whose \<open>data\<close> key may be absent (\<open>None\<close>).
\<close>

record 'v hour_data =
  dt :: "int option"
  temp :: "'v option"
  hum :: "'v option"

type_synonym 'v weather_data = "'v hour_data list option"

text \<open>
  The CSV files. A line is the header line \<open>timestamp,temperature,humidity\<close> that
  \<open>writeheader\<close> writes, or a data line that \<open>writerow\<close> writes: the ISO-8601 text of a
  timestamp and the texts of two numbers. The model keeps the values that the texts
  denote, so it takes for granted that \<open>pandas\<close> reads back the numbers that \<open>str\<close>
  wrote and, from a column written in one format, the timestamps that \<open>isoformat\<close>
  wrote. The file system maps a path to the lines of the file there, if there is one.
\<close>

datatype 'v csv_row = Header_row | Data_row datetime 'v 'v

type_synonym 'v filesystem = "string \<rightharpoonup> 'v csv_row list"

datatype error = HttpError | NetworkError | ValueError
  | EmptyDataError | KeyError | DateParseError

section \<open>The time series store\<close>

text \<open>
  \<open>pd.read_csv\<close> followed by \<open>pd.to_datetime(df["timestamp"])\<close>. The first line of the
  file names the columns. A file without lines has no columns to parse; when the first
  line is a data line there is no column named \<open>timestamp\<close>; a header line further down
  is a cell \<open>timestamp\<close> in the timestamp column, which is not a date.

  \<open>isoformat\<close> writes the fraction of a second only when it is not zero, and
  \<open>to_datetime\<close> reads a column in the format of its first cell: it raises when a
  later cell has a fraction and the first has none, or the other way round.
\<close>

definition has_fraction :: "datetime \<Rightarrow> bool" where
  "has_fraction t = (t mod second_us \<noteq> 0)"

definition to_datetime :: "'v weather_record list \<Rightarrow> error + 'v weather_record list" where
  "to_datetime df =
     (case df of
        [] \<Rightarrow> Inr []
      | r # rs \<Rightarrow>
          if list_all (\<lambda>r'. has_fraction (timestamp r') = has_fraction (timestamp r)) rs
          then Inr df
          else Inl DateParseError)"

fun parse_rows :: "'v csv_row list \<Rightarrow> error + 'v weather_record list" where
  "parse_rows [] = Inr []"
| "parse_rows (Header_row # rows) = Inl DateParseError"
| "parse_rows (Data_row t x y # rows) =
     (case parse_rows rows of
        Inl e \<Rightarrow> Inl e
      | Inr df \<Rightarrow> Inr (\<lparr>timestamp = t, temperature = x, humidity = y\<rparr> # df))"

fun read_csv_to_datetime :: "'v csv_row list \<Rightarrow> error + 'v weather_record list" where
  "read_csv_to_datetime [] = Inl EmptyDataError"
| "read_csv_to_datetime (Data_row t x y # rows) = Inl KeyError"
| "read_csv_to_datetime (Header_row # rows) =
     (case parse_rows rows of
        Inl e \<Rightarrow> Inl e
      | Inr df \<Rightarrow> to_datetime df)"

definition load_existing_data :: "'v filesystem \<Rightarrow> city \<Rightarrow> 'v weather_record list" where
  "load_existing_data fs city_name =
     (let csv_path = get_csv_path city_name in
      case fs csv_path of
        Some rows \<Rightarrow>
          (case read_csv_to_datetime rows of
             Inr df \<Rightarrow> df
           | Inl e \<Rightarrow> [])
      | None \<Rightarrow> [])"

text \<open>The argument of \<open>data_exists\<close> is an \<open>int\<close> or a \<open>datetime\<close>.\<close>

datatype timestamp_arg = Int_arg int | Datetime_arg datetime

definition data_exists :: "'v weather_record list \<Rightarrow> timestamp_arg \<Rightarrow> bool" where
  "data_exists existing_df ts =
     (if existing_df = [] then False
      else
        let t = (case ts of Int_arg n \<Rightarrow> fromtimestamp n | Datetime_arg d \<Rightarrow> d);
            matches = filter (\<lambda>r. timestamp r = t) existing_df
        in length matches > 0)"

definition row_of_record :: "'v weather_record \<Rightarrow> 'v csv_row" where
  "row_of_record r = Data_row (timestamp r) (temperature r) (humidity r)"

definition save_to_csv :: "city \<Rightarrow> 'v weather_record list \<Rightarrow> 'v filesystem \<Rightarrow> 'v filesystem" where
  "save_to_csv city_name data_records fs =
     (if data_records = [] then fs
      else
        let csv_path = get_csv_path city_name;
            file_exists = (fs csv_path \<noteq> None);
            old = (case fs csv_path of None \<Rightarrow> [] | Some rows \<Rightarrow> rows);
            header = (if \<not> file_exists then [Header_row] else [])
        in fs(csv_path \<mapsto> old @ header @ map row_of_record data_records))"

section \<open>The gap detector\<close>

text \<open>
  The loop of \<open>get_missing_hours\<close> over \<open>range(1, hours_back + 1)\<close>; \<open>now\<close> stands for
  the value that \<open>datetime.now(timezone.utc)\<close> returned.
\<close>

definition missing_step ::
  "'v weather_record list \<Rightarrow> datetime \<Rightarrow> datetime list \<Rightarrow> int \<Rightarrow> datetime list" where
  "missing_step existing_df now missing_hours i =
     (let target_hour = floor_to_hour (now - i * hour_us) in
      if \<not> data_exists existing_df (Datetime_arg target_hour)
      then missing_hours @ [target_hour]
      else missing_hours)"

definition get_missing_hours :: "'v filesystem \<Rightarrow> datetime \<Rightarrow> city \<Rightarrow> int \<Rightarrow> datetime list" where
  "get_missing_hours fs now city_name hours_back =
     (let existing_df = load_existing_data fs city_name in
      foldl (missing_step existing_df now) [] [1..hours_back])"

section \<open>The fetch orchestrator\<close>

text \<open>
  The two endpoints are functions from the request to the outcome of \<open>requests.get\<close>
  and \<open>raise_for_status\<close>: an error, or the decoded JSON. Coordinates are values of an
  arbitrary type \<open>'c\<close>.
\<close>

type_synonym 'c geocoding_api = "string \<Rightarrow> error + 'c list"

type_synonym ('c, 'v) weather_api = "'c \<Rightarrow> int \<Rightarrow> error + 'v weather_data"

definition get_city_coordinates :: "'c geocoding_api \<Rightarrow> string \<Rightarrow> error + 'c" where
  "get_city_coordinates geo city_query_str =
     (case geo city_query_str of
        Inl e \<Rightarrow> Inl e
      | Inr [] \<Rightarrow> Inl ValueError
      | Inr (c # cs) \<Rightarrow> Inr c)"

definition get_historical_weather ::
  "('c, 'v) weather_api \<Rightarrow> 'c \<Rightarrow> int \<Rightarrow> error + 'v weather_data" where
  "get_historical_weather api coords ts = api coords ts"

text \<open>
  \<open>extract_hourly_data\<close> builds the fields of the record in the order timestamp,
  temperature, humidity: a missing key raises \<open>KeyError\<close>, and a \<open>dt\<close> that
  \<open>fromtimestamp\<close> does not accept raises \<open>ValueError\<close>. Without a first element of
  \<open>data\<close> the function returns \<open>None\<close>.
\<close>

definition extract_hourly_data ::
  "'v weather_data \<Rightarrow> int \<Rightarrow> error + 'v weather_record option" where
  "extract_hourly_data weather_data target_timestamp =
     (case weather_data of
        Some (hour_data # others) \<Rightarrow>
          (case dt hour_data of
             None \<Rightarrow> Inl KeyError
           | Some d \<Rightarrow>
               if \<not> timestamp_in_range d then Inl ValueError
               else
                 (case temp hour_data of
                    None \<Rightarrow> Inl KeyError
                  | Some x \<Rightarrow>
                      (case hum hour_data of
                         None \<Rightarrow> Inl KeyError
                       | Some y \<Rightarrow>
                           Inr (Some \<lparr>timestamp = fromtimestamp d,
                                      temperature = x,
                                      humidity = y\<rparr>))))
      | _ \<Rightarrow> Inr None)"

text \<open>
  The loop of \<open>fetch_city_data\<close> over \<open>target_times\<close>, with \<open>new_records\<close> as the
  accumulator. An exception inside the loop body, from the request or from
  \<open>extract_hourly_data\<close>, is caught there and the loop continues.
\<close>

fun fetch_loop ::
  "('c, 'v) weather_api \<Rightarrow> 'c \<Rightarrow> datetime list \<Rightarrow> 'v weather_record list
     \<Rightarrow> 'v weather_record list" where
  "fetch_loop api coords [] new_records = new_records"
| "fetch_loop api coords (target_time # rest) new_records =
     (case get_historical_weather api coords (int_timestamp target_time) of
        Inl e \<Rightarrow> fetch_loop api coords rest new_records
      | Inr weather_data \<Rightarrow>
          (case extract_hourly_data weather_data (int_timestamp target_time) of
             Inl e \<Rightarrow> fetch_loop api coords rest new_records
           | Inr (Some record) \<Rightarrow> fetch_loop api coords rest (new_records @ [record])
           | Inr None \<Rightarrow> fetch_loop api coords rest new_records))"

definition fetch_city_data ::
  "'c geocoding_api \<Rightarrow> ('c, 'v) weather_api \<Rightarrow> city \<Rightarrow> datetime list
     \<Rightarrow> 'v filesystem \<Rightarrow> 'v filesystem" where
  "fetch_city_data geo api city_name target_times fs =
     (if target_times = [] then fs
      else
        case get_city_coordinates geo (city_query city_name) of
          Inl e \<Rightarrow> fs
        | Inr coords \<Rightarrow>
            (let new_records = fetch_loop api coords target_times [] in
             if new_records \<noteq> [] then save_to_csv city_name new_records fs else fs))"

text \<open>
  The body of the loop of \<open>fetch_missing_data\<close> for one city (the backfill of the
  specification), and the loop over the three cities; \<open>clock\<close> gives the time that
  \<open>get_missing_hours\<close> reads for each city.
\<close>

definition backfill ::
  "'c geocoding_api \<Rightarrow> ('c, 'v) weather_api \<Rightarrow> datetime \<Rightarrow> city \<Rightarrow> int
     \<Rightarrow> 'v filesystem \<Rightarrow> 'v filesystem" where
  "backfill geo api now city_name max_hours_back fs =
     (let missing_hours = get_missing_hours fs now city_name max_hours_back in
      if missing_hours \<noteq> [] then fetch_city_data geo api city_name missing_hours fs
      else fs)"

definition fetch_missing_data ::
  "'c geocoding_api \<Rightarrow> ('c, 'v) weather_api \<Rightarrow> (city \<Rightarrow> datetime) \<Rightarrow> int
     \<Rightarrow> 'v filesystem \<Rightarrow> 'v filesystem" where
  "fetch_missing_data geo api clock max_hours_back fs =
     foldl (\<lambda>fs' city_name. backfill geo api (clock city_name) city_name max_hours_back fs')
       fs [Cape_Town, Kigali, Kampala]"




text \<open>
  Example endpoints for the instances below. The geocoding endpoint finds every city.
  The first weather endpoint answers the request for 2024-01-01T09:00:00Z (1704099600)
  with an observation dated 09:30 (1704101400), the request for 08:00 (1704096000) with
  an observation dated 08:00, and every other request with an empty \<open>data\<close> array. The
  second fails on the request for 08:00 and answers every other request with an
  observation dated as requested. The third answers every request with an observation
  dated in the year 33658.
\<close>

definition example_geo :: "unit geocoding_api" where
  "example_geo q = Inr [()]"

definition half_past_api :: "(unit, int) weather_api" where
  "half_past_api coords t =
     (if t = 1704099600
      then Inr (Some [\<lparr>dt = Some 1704101400, temp = Some 21, hum = Some 60\<rparr>])
      else if t = 1704096000
      then Inr (Some [\<lparr>dt = Some 1704096000, temp = Some 20, hum = Some 62\<rparr>])
      else Inr (Some []))"


definition far_future_api :: "(unit, int) weather_api" where
  "far_future_api coords t =
     Inr (Some [\<lparr>dt = Some 1000000000000, temp = Some 21, hum = Some 60\<rparr>])"

section \<open>The existence check\<close>

lemma data_exists_iff:
  "data_exists df ts =
     (\<exists>r \<in> set df. timestamp r = (case ts of Int_arg n \<Rightarrow> fromtimestamp n | Datetime_arg d \<Rightarrow> d))"
proof (cases "df = []")
  case True
  then show ?thesis by (simp add: data_exists_def)
next
  case False
  then show ?thesis
    by (auto simp: data_exists_def Let_def filter_empty_conv)
qed

text \<open>
  C4. The existence check is an exact match: \<open>data_exists\<close> holds exactly when some
  record of the frame has the given instant as its timestamp (for an integer argument,
  the instant that many seconds after the epoch); it is false on the empty frame; and a
  frame whose only record is at an instant \<open>t\<close> has no data for \<open>t\<close> plus one second.
\<close>

theorem data_exists_exact_match:
  "data_exists df (Datetime_arg t) = (\<exists>r \<in> set df. timestamp r = t)
   \<and> data_exists df (Int_arg n) = (\<exists>r \<in> set df. timestamp r = fromtimestamp n)
   \<and> data_exists ([] :: 'v weather_record list) ts = False
   \<and> \<not> data_exists [\<lparr>timestamp = t, temperature = x :: 'v, humidity = y\<rparr>]
         (Datetime_arg (t + second_us))"
  for df :: "'v weather_record list"
  by (simp add: data_exists_iff second_us_def)

text \<open>
  The instance of C4 in the specification: 1704114000 is 2024-01-01T13:00:00Z in Unix
  seconds.
\<close>

theorem data_exists_exact_match_witness:
  "data_exists [\<lparr>timestamp = 1704114000000000, temperature = 21 :: int, humidity = 60\<rparr>]
     (Datetime_arg 1704114000000000)
   \<and> data_exists [\<lparr>timestamp = 1704114000000000, temperature = 21 :: int, humidity = 60\<rparr>]
     (Int_arg 1704114000)
   \<and> \<not> data_exists [\<lparr>timestamp = 1704114000000000, temperature = 21 :: int, humidity = 60\<rparr>]
     (Datetime_arg 1704114001000000)"
  using data_exists_exact_match
    [where df = "[\<lparr>timestamp = 1704114000000000, temperature = 21 :: int, humidity = 60\<rparr>]"
       and t = 1704114000000000 and n = 1704114000 and x = 21 and y = 60]
  by (simp add: fromtimestamp_def second_us_def)

section \<open>Appending to the store\<close>

text \<open>
  C10. Appending an empty list of records changes nothing: the file system after the
  call is the file system before it, so no file is created and no header or row is
  written.
\<close>

theorem save_to_csv_empty:
  "save_to_csv city_name [] fs = fs"
  by (simp add: save_to_csv_def)

text \<open>
  C9. When the file of a city is absent, loading gives the empty frame and appending a
  non-empty list of records creates the file with the header line followed by one data
  line per record; when the file is there, appending a non-empty list adds the data
  lines after the lines of the file and writes no header.
\<close>

theorem absent_file_behaviour:
  "(fs (get_csv_path city_name) = None \<longrightarrow>
      load_existing_data fs city_name = []
      \<and> (recs \<noteq> [] \<longrightarrow>
           save_to_csv city_name recs fs =
             fs(get_csv_path city_name \<mapsto> Header_row # map row_of_record recs)))
   \<and> (fs (get_csv_path city_name) = Some rows \<longrightarrow> recs \<noteq> [] \<longrightarrow>
         save_to_csv city_name recs fs =
           fs(get_csv_path city_name \<mapsto> rows @ map row_of_record recs))"
  by (simp add: load_existing_data_def save_to_csv_def)

theorem absent_file_behaviour_witness:
  "load_existing_data (Map.empty :: int filesystem) Kigali = []
   \<and> save_to_csv Kigali [\<lparr>timestamp = 1704099600000000, temperature = 21 :: int, humidity = 60\<rparr>]
         Map.empty
       = [get_csv_path Kigali \<mapsto> [Header_row, Data_row 1704099600000000 21 60]]
   \<and> save_to_csv Kigali [\<lparr>timestamp = 1704103200000000, temperature = 22 :: int, humidity = 58\<rparr>]
         [get_csv_path Kigali \<mapsto> [Header_row, Data_row 1704099600000000 21 60]]
       = [get_csv_path Kigali \<mapsto>
            [Header_row, Data_row 1704099600000000 21 60, Data_row 1704103200000000 22 58]]"
  using absent_file_behaviour
    [of "Map.empty :: int filesystem" Kigali
        "[\<lparr>timestamp = 1704099600000000, temperature = 21, humidity = 60\<rparr>]" "[]"]
    absent_file_behaviour
    [of "[get_csv_path Kigali \<mapsto> [Header_row, Data_row 1704099600000000 21 60]]" Kigali
        "[\<lparr>timestamp = 1704103200000000, temperature = 22 :: int, humidity = 58\<rparr>]"
        "[Header_row, Data_row 1704099600000000 21 60]"]
  by (simp add: row_of_record_def)

section \<open>The gap detector returns the hours without data\<close>

lemma foldl_missing_step:
  "foldl (missing_step df now) acc xs =
     acc @ filter (\<lambda>target_hour. \<not> data_exists df (Datetime_arg target_hour))
             (map (\<lambda>i. floor_to_hour (now - i * hour_us)) xs)"
  by (induction xs arbitrary: acc) (simp_all add: missing_step_def)

lemma floor_to_hour_shift:
  "floor_to_hour (now - i * hour_us) = floor_to_hour now - i * hour_us"
proof -
  have "(now - i * hour_us) mod hour_us = now mod hour_us"
    by (metis mod_diff_right_eq mod_mult_self2_is_0 diff_zero)
  then show ?thesis by (simp add: floor_to_hour_def)
qed

lemma floor_to_hour_boundary:
  "floor_to_hour d mod hour_us = 0"
  by (simp add: floor_to_hour_def minus_mod_eq_mult_div)

text \<open>
  C1. For every file system, time \<open>now\<close>, city and \<open>hours_back = N\<close>,
  \<open>get_missing_hours\<close> returns the instants \<open>floor_to_hour (now - i hours)\<close> for
  \<open>i = 1, ..., N\<close> for which \<open>data_exists\<close> on the loaded records is false, in the order
  of increasing \<open>i\<close>. When the loaded store is empty, \<open>N = 3\<close> and \<open>now\<close> is
  2024-01-01T10:15:00Z (1704104100 in Unix seconds), the result is 09:00, 08:00, 07:00
  of that day (1704099600, 1704096000, 1704092400).
\<close>

theorem get_missing_hours_correct:
  "get_missing_hours fs now city_name N =
     filter (\<lambda>target_hour.
               \<not> data_exists (load_existing_data fs city_name) (Datetime_arg target_hour))
       (map (\<lambda>i. floor_to_hour (now - i * hour_us)) [1..N])
   \<and> (load_existing_data fs city_name = [] \<longrightarrow>
        get_missing_hours fs 1704104100000000 city_name 3 =
          [1704099600000000, 1704096000000000, 1704092400000000])"
proof -
  have upto3: "[1..3::int] = [1, 2, 3]"
    by (simp add: upto.simps)
  have general: "get_missing_hours fs t city_name n =
     filter (\<lambda>target_hour.
               \<not> data_exists (load_existing_data fs city_name) (Datetime_arg target_hour))
       (map (\<lambda>i. floor_to_hour (t - i * hour_us)) [1..n])" for t n
    by (simp add: get_missing_hours_def foldl_missing_step)
  have "get_missing_hours fs 1704104100000000 city_name 3 =
          [1704099600000000, 1704096000000000, 1704092400000000]"
    if "load_existing_data fs city_name = []"
    using that
    by (simp add: general upto3 data_exists_def floor_to_hour_def hour_us_def second_us_def)
  with general show ?thesis by blast
qed

theorem get_missing_hours_correct_witness:
  "get_missing_hours (Map.empty :: int filesystem) 1704104100000000 Cape_Town 3 =
     [1704099600000000, 1704096000000000, 1704092400000000]
   \<and> get_missing_hours
         [get_csv_path Cape_Town \<mapsto> [Header_row, Data_row 1704096000000000 (21 :: int) 60]]
         1704104100000000 Cape_Town 3 =
       [1704099600000000, 1704092400000000]"
proof -
  have upto3: "[1..3::int] = [1, 2, 3]"
    by (simp add: upto.simps)
  have empty: "load_existing_data (Map.empty :: int filesystem) Cape_Town = []"
    by (simp add: load_existing_data_def)
  show ?thesis
    using get_missing_hours_correct
      [of "Map.empty :: int filesystem" 1704104100000000 Cape_Town 3]
      get_missing_hours_correct
      [of "[get_csv_path Cape_Town \<mapsto> [Header_row, Data_row 1704096000000000 (21 :: int) 60]]"
          1704104100000000 Cape_Town 3]
    by (simp add: empty upto3 load_existing_data_def to_datetime_def data_exists_def
        floor_to_hour_def hour_us_def second_us_def)
qed

text \<open>
  C6. For every \<open>hours_back = N\<close>, file system and \<open>now\<close>, \<open>get_missing_hours\<close> returns at
  most \<open>N\<close> entries (none when \<open>N\<close> is negative), each a multiple of one hour and each
  strictly before \<open>floor_to_hour now\<close>.
\<close>

theorem get_missing_hours_bounds:
  "length (get_missing_hours fs now city_name N) \<le> nat N
   \<and> (\<forall>t \<in> set (get_missing_hours fs now city_name N).
          t mod hour_us = 0 \<and> t < floor_to_hour now)"
proof -
  let ?hours = "map (\<lambda>i. floor_to_hour (now - i * hour_us)) [1..N]"
  have eq: "get_missing_hours fs now city_name N =
     filter (\<lambda>target_hour.
               \<not> data_exists (load_existing_data fs city_name) (Datetime_arg target_hour)) ?hours"
    by (simp add: get_missing_hours_def foldl_missing_step)
  have "length (get_missing_hours fs now city_name N) \<le> length ?hours"
    unfolding eq by (rule length_filter_le)
  then have len: "length (get_missing_hours fs now city_name N) \<le> nat N"
    by simp
  have "t mod hour_us = 0 \<and> t < floor_to_hour now" if "t \<in> set ?hours" for t
  proof -
    from that obtain i where i: "1 \<le> i" and t: "t = floor_to_hour (now - i * hour_us)"
      by auto
    have "0 < i * hour_us"
      using i by (simp add: hour_us_def second_us_def)
    then have "t < floor_to_hour now"
      by (simp add: t floor_to_hour_shift)
    then show ?thesis
      by (simp add: t floor_to_hour_boundary)
  qed
  then have "\<forall>t \<in> set (get_missing_hours fs now city_name N).
          t mod hour_us = 0 \<and> t < floor_to_hour now"
    unfolding eq by simp
  with len show ?thesis by blast
qed

theorem get_missing_hours_bounds_witness:
  "length (get_missing_hours (Map.empty :: int filesystem) 1704104100000000 Kampala 3) \<le> 3
   \<and> 1704099600000000 mod hour_us = 0 \<and> 1704099600000000 < floor_to_hour 1704104100000000
   \<and> 1704096000000000 mod hour_us = 0 \<and> 1704096000000000 < floor_to_hour 1704104100000000
   \<and> 1704092400000000 mod hour_us = 0 \<and> 1704092400000000 < floor_to_hour 1704104100000000
   \<and> get_missing_hours (Map.empty :: int filesystem) 1704104100000000 Kampala 3 =
       [1704099600000000, 1704096000000000, 1704092400000000]"
proof -
  have upto3: "[1..3::int] = [1, 2, 3]"
    by (simp add: upto.simps)
  have run: "get_missing_hours (Map.empty :: int filesystem) 1704104100000000 Kampala 3 =
       [1704099600000000, 1704096000000000, 1704092400000000]"
    by (simp add: get_missing_hours_def upto3 missing_step_def load_existing_data_def
        data_exists_def floor_to_hour_def hour_us_def second_us_def)
  show ?thesis
    using get_missing_hours_bounds
      [of "Map.empty :: int filesystem" 1704104100000000 Kampala 3]
    by (simp add: run)
qed

section \<open>The fetch loop\<close>

lemma fetch_loop_append:
  "fetch_loop api coords (xs @ ys) acc = fetch_loop api coords ys (fetch_loop api coords xs acc)"
  by (induction xs arbitrary: acc) (simp_all split: sum.splits option.splits)

lemma fetch_loop_acc:
  "fetch_loop api coords xs acc = acc @ fetch_loop api coords xs []"
proof (induction xs arbitrary: acc)
  case Nil
  show ?case by simp
next
  case (Cons x xs)
  have step: "fetch_loop api coords xs (acc @ [r]) = acc @ fetch_loop api coords xs [r]" for r
    using Cons.IH [of "acc @ [r]"] Cons.IH [of "[r]"] by simp
  show ?case
    by (simp add: step Cons.IH [of acc] split: sum.splits option.splits)
qed

lemma fetch_loop_around:
  assumes "get_historical_weather api coords (int_timestamp target_time) = Inr weather_data"
    and "extract_hourly_data weather_data (int_timestamp target_time) = Inr (Some r)"
  shows "fetch_loop api coords (before @ target_time # after) [] =
     fetch_loop api coords before [] @ [r] @ fetch_loop api coords after []"
proof -
  have "fetch_loop api coords (before @ target_time # after) [] =
      fetch_loop api coords after (fetch_loop api coords before [] @ [r])"
    using assms by (simp add: fetch_loop_append)
  also have "\<dots> = (fetch_loop api coords before [] @ [r]) @ fetch_loop api coords after []"
    by (rule fetch_loop_acc)
  finally show ?thesis by simp
qed

text \<open>
  C3, as amended. For every response whose \<open>data\<close> array is non-empty and whose first
  element has \<open>temp\<close>, \<open>humidity\<close> and a \<open>dt\<close> that \<open>fromtimestamp\<close> accepts,
  \<open>extract_hourly_data\<close> returns a record whose timestamp is the instant of that \<open>dt\<close>,
  whatever the target timestamp; and when the orchestrator gets that response for one
  of the target hours of a batch, the file of the city holds a line with that
  timestamp, after the lines it had (or the header, in a new file) and the lines of the
  hours before, and before the lines of the hours after.
\<close>

theorem extract_hourly_data_uses_dt:
  assumes "dt h = Some d" and "timestamp_in_range d"
    and "temp h = Some x" and "hum h = Some y"
  shows "extract_hourly_data (Some (h # hs)) target_timestamp =
       Inr (Some \<lparr>timestamp = fromtimestamp d, temperature = x, humidity = y\<rparr>)
     \<and> (get_city_coordinates geo (city_query city_name) = Inr coords \<longrightarrow>
          get_historical_weather api coords (int_timestamp target_time) = Inr (Some (h # hs)) \<longrightarrow>
          fetch_city_data geo api city_name (before @ target_time # after) fs
              (get_csv_path city_name) =
            Some ((case fs (get_csv_path city_name) of
                     None \<Rightarrow> [Header_row] | Some rows \<Rightarrow> rows)
                  @ map row_of_record (fetch_loop api coords before [])
                  @ [Data_row (fromtimestamp d) x y]
                  @ map row_of_record (fetch_loop api coords after [])))"
proof -
  let ?r = "\<lparr>timestamp = fromtimestamp d, temperature = x, humidity = y\<rparr>"
  have extracted: "extract_hourly_data (Some (h # hs)) t = Inr (Some ?r)" for t
    using assms by (simp add: extract_hourly_data_def)
  have "fetch_city_data geo api city_name (before @ target_time # after) fs
              (get_csv_path city_name) =
            Some ((case fs (get_csv_path city_name) of
                     None \<Rightarrow> [Header_row] | Some rows \<Rightarrow> rows)
                  @ map row_of_record (fetch_loop api coords before [])
                  @ [Data_row (fromtimestamp d) x y]
                  @ map row_of_record (fetch_loop api coords after []))"
    if coords: "get_city_coordinates geo (city_query city_name) = Inr coords"
      and response: "get_historical_weather api coords (int_timestamp target_time) =
        Inr (Some (h # hs))"
  proof -
    have loop: "fetch_loop api coords (before @ target_time # after) [] =
        fetch_loop api coords before [] @ [?r] @ fetch_loop api coords after []"
      using response extracted by (rule fetch_loop_around)
    show ?thesis
      by (simp add: fetch_city_data_def coords loop save_to_csv_def row_of_record_def
          split: option.splits)
  qed
  with extracted show ?thesis by blast
qed

text \<open>
  The instance: of the hours 08:00, 09:00, 07:00 of 2024-01-01 the first example
  endpoint answers 09:00 (1704099600) with an observation dated half an hour later
  (1704101400); the line written for that hour is dated 09:30.
\<close>

theorem extract_hourly_data_uses_dt_witness:
  "extract_hourly_data (Some [\<lparr>dt = Some 1704101400, temp = Some (21 :: int), hum = Some 60\<rparr>])
       1704099600 =
     Inr (Some \<lparr>timestamp = 1704101400000000, temperature = 21, humidity = 60\<rparr>)
   \<and> fetch_city_data example_geo half_past_api Kigali
         [1704096000000000, 1704099600000000, 1704092400000000] Map.empty
         (get_csv_path Kigali) =
       Some [Header_row, Data_row 1704096000000000 20 62, Data_row 1704101400000000 21 60]"
proof -
  let ?h = "\<lparr>dt = Some 1704101400, temp = Some (21 :: int), hum = Some 60\<rparr>"
  have d: "dt ?h = Some 1704101400" and x: "temp ?h = Some 21" and y: "hum ?h = Some 60"
    by simp_all
  have range: "timestamp_in_range 1704101400"
    by (simp add: timestamp_in_range_def)
  have coords: "get_city_coordinates example_geo (city_query Kigali) = Inr ()"
    by (simp add: get_city_coordinates_def example_geo_def)
  have response: "get_historical_weather half_past_api () (int_timestamp 1704099600000000) =
      Inr (Some [?h])"
    by (simp add: get_historical_weather_def half_past_api_def int_timestamp_def second_us_def)
  show ?thesis
    using extract_hourly_data_uses_dt [OF d range x y,
        where hs = "[]" and target_timestamp = 1704099600 and geo = example_geo
          and city_name = Kigali and coords = "()" and api = half_past_api
          and target_time = 1704099600000000 and before = "[1704096000000000]"
          and after = "[1704092400000000]" and fs = Map.empty]
    by (simp add: response)
      (simp add: get_city_coordinates_def example_geo_def get_historical_weather_def
        half_past_api_def int_timestamp_def second_us_def extract_hourly_data_def
        timestamp_in_range_def fromtimestamp_def row_of_record_def)
qed

text \<open>
  C3 as stated fails. A first element dated 1000000000000, in the year 33658, or one
  without \<open>dt\<close>, \<open>temp\<close> or \<open>humidity\<close>, makes \<open>extract_hourly_data\<close> raise instead
  of returning a record; the loop catches the exception, and with the third example
  endpoint the orchestrator writes nothing.
\<close>

theorem extract_hourly_data_counterexample:
  "extract_hourly_data
       (Some [\<lparr>dt = Some 1000000000000, temp = Some (21 :: int), hum = Some 60\<rparr>]) 1704099600 =
     Inl ValueError
   \<and> extract_hourly_data
       (Some [\<lparr>dt = None, temp = Some (21 :: int), hum = Some 60\<rparr>]) 1704099600 =
     Inl KeyError
   \<and> extract_hourly_data
       (Some [\<lparr>dt = Some 1704099600, temp = None, hum = Some (60 :: int)\<rparr>]) 1704099600 =
     Inl KeyError
   \<and> extract_hourly_data
       (Some [\<lparr>dt = Some 1704099600, temp = Some (21 :: int), hum = None\<rparr>]) 1704099600 =
     Inl KeyError
   \<and> fetch_city_data example_geo far_future_api Kigali [1704099600000000] Map.empty
       (get_csv_path Kigali) = None"
  by (simp add: extract_hourly_data_def timestamp_in_range_def fetch_city_data_def
      get_city_coordinates_def example_geo_def get_historical_weather_def far_future_api_def)

text \<open>
  C7. When the coordinates of the city are resolved and fetching one of the target hours
  fails, whatever the hours before and after it in the list, the orchestrator skips that
  hour and goes on: the result is one call of \<open>save_to_csv\<close> with the records that
  the loop gathers from the hours before, followed by those from the hours after.
\<close>

theorem per_hour_failure_isolation:
  assumes "get_city_coordinates geo (city_query city_name) = Inr coords"
    and "get_historical_weather api coords (int_timestamp target_time) = Inl e"
  shows "fetch_city_data geo api city_name (before @ target_time # after) fs =
     save_to_csv city_name
       (fetch_loop api coords before [] @ fetch_loop api coords after []) fs"
proof -
  have "fetch_loop api coords (before @ target_time # after) [] =
      fetch_loop api coords after (fetch_loop api coords before [])"
    using assms(2) by (simp add: fetch_loop_append)
  also have "\<dots> = fetch_loop api coords before [] @ fetch_loop api coords after []"
    by (rule fetch_loop_acc)
  finally show ?thesis
    using assms(1) by (simp add: fetch_city_data_def save_to_csv_def)
qed

text \<open>
  The instance: of the hours 09:00, 08:00, 07:00 of 2024-01-01, the request for 08:00
  fails with an HTTP error and the other two are answered; both records reach the file.
\<close>

theorem per_hour_failure_isolation_witness:
  "fetch_city_data (\<lambda>q. Inr [()])
     (\<lambda>c t. if t = 1704096000 then Inl HttpError
            else Inr (Some [\<lparr>dt = Some t, temp = Some (21 :: int), hum = Some 60\<rparr>]))
     Kampala [1704099600000000, 1704096000000000, 1704092400000000] Map.empty =
   [get_csv_path Kampala \<mapsto>
      [Header_row, Data_row 1704099600000000 21 60, Data_row 1704092400000000 21 60]]"
proof -
  let ?geo = "\<lambda>q :: string. (Inr [()] :: error + unit list)"
  let ?api = "\<lambda>(c :: unit) t :: int. if t = 1704096000 then Inl HttpError
            else Inr (Some [\<lparr>dt = Some t, temp = Some (21 :: int), hum = Some 60\<rparr>])"
  have coords: "get_city_coordinates ?geo (city_query Kampala) = Inr ()"
    by (simp add: get_city_coordinates_def)
  have fails: "get_historical_weather ?api () (int_timestamp 1704096000000000) = Inl HttpError"
    by (simp add: get_historical_weather_def int_timestamp_def second_us_def)
  show ?thesis
    using per_hour_failure_isolation [OF coords fails, of "[1704099600000000]"
        "[1704092400000000]" Map.empty]
    by (simp add: get_historical_weather_def int_timestamp_def second_us_def
        extract_hourly_data_def timestamp_in_range_def fromtimestamp_def save_to_csv_def
        row_of_record_def)
qed

text \<open>
  C8. When the response for a target hour has no \<open>data\<close> entry (the key is absent or
  the array is empty), \<open>extract_hourly_data\<close> returns \<open>None\<close>, no record is added for
  that hour, and the loop goes on with the hours after it.
\<close>

theorem no_data_hour_skipped:
  assumes "get_historical_weather api coords (int_timestamp target_time) = Inr weather_data"
    and "weather_data = None \<or> weather_data = Some []"
  shows "extract_hourly_data weather_data (int_timestamp target_time) = Inr None
     \<and> fetch_loop api coords (before @ target_time # after) new_records =
         fetch_loop api coords after (fetch_loop api coords before new_records)"
proof -
  have none: "extract_hourly_data weather_data (int_timestamp target_time) = Inr None"
    using assms(2) by (auto simp: extract_hourly_data_def)
  then show ?thesis
    using assms(1) by (simp add: fetch_loop_append)
qed

text \<open>
  The instance: the response for 08:00 has an empty \<open>data\<close> array; the records of
  09:00 and 07:00 are gathered.
\<close>

theorem no_data_hour_skipped_witness:
  "extract_hourly_data (Some ([] :: int hour_data list)) 1704096000 = Inr None
   \<and> fetch_loop
         (\<lambda>(c :: unit) t. if t = 1704096000 then Inr (Some [])
            else Inr (Some [\<lparr>dt = Some t, temp = Some (21 :: int), hum = Some 60\<rparr>]))
         () [1704099600000000, 1704096000000000, 1704092400000000] [] =
       [\<lparr>timestamp = 1704099600000000, temperature = 21, humidity = 60\<rparr>,
        \<lparr>timestamp = 1704092400000000, temperature = 21, humidity = 60\<rparr>]"
proof -
  let ?api = "\<lambda>(c :: unit) t :: int. if t = 1704096000 then (Inr (Some []) :: error + int weather_data)
            else Inr (Some [\<lparr>dt = Some t, temp = Some (21 :: int), hum = Some 60\<rparr>])"
  have empty: "get_historical_weather ?api () (int_timestamp 1704096000000000) = Inr (Some [])"
    by (simp add: get_historical_weather_def int_timestamp_def second_us_def)
  show ?thesis
    using no_data_hour_skipped [OF empty, of "[1704099600000000]" "[1704092400000000]" "[]"]
    by (simp add: get_historical_weather_def int_timestamp_def second_us_def
        extract_hourly_data_def timestamp_in_range_def fromtimestamp_def)
qed


section \<open>Appending and reloading\<close>














section \<open>Running the backfill twice\<close>



















end
